theory Spec2Isabelle
  imports Main "HOL-Library.Word" "HOL-Library.Char_ord" "HOL-Library.List_Lexorder"
    "HOL-Library.Sublist"
begin

unbundle bit_operations_syntax

section \<open>Status of operations (tkrzw\_lib\_common.h, class Status)\<close>

text \<open>
  \<^verbatim>\<open>enum Code : int32_t\<close> has the fixed underlying type \<open>int32_t\<close>, so a \<open>Code\<close> is
  any 32-bit value, read as two's complement; the thirteen enumerators are named
  constants of that type.
\<close>

type_synonym Code = "32 word"

definition SUCCESS :: Code where "SUCCESS = 0"
definition UNKNOWN_ERROR :: Code where "UNKNOWN_ERROR = 1"
definition SYSTEM_ERROR :: Code where "SYSTEM_ERROR = 2"
definition NOT_IMPLEMENTED_ERROR :: Code where "NOT_IMPLEMENTED_ERROR = 3"
definition PRECONDITION_ERROR :: Code where "PRECONDITION_ERROR = 4"
definition INVALID_ARGUMENT_ERROR :: Code where "INVALID_ARGUMENT_ERROR = 5"
definition CANCELED_ERROR :: Code where "CANCELED_ERROR = 6"
definition NOT_FOUND_ERROR :: Code where "NOT_FOUND_ERROR = 7"
definition PERMISSION_ERROR :: Code where "PERMISSION_ERROR = 8"
definition INFEASIBLE_ERROR :: Code where "INFEASIBLE_ERROR = 9"
definition DUPLICATION_ERROR :: Code where "DUPLICATION_ERROR = 10"
definition BROKEN_DATA_ERROR :: Code where "BROKEN_DATA_ERROR = 11"
definition APPLICATION_ERROR :: Code where "APPLICATION_ERROR = 12"

text \<open>The thirteen defined status codes, in the order of the enumeration.\<close>

definition defined_codes :: "Code list" where
  "defined_codes =
     [SUCCESS, UNKNOWN_ERROR, SYSTEM_ERROR, NOT_IMPLEMENTED_ERROR, PRECONDITION_ERROR,
      INVALID_ARGUMENT_ERROR, CANCELED_ERROR, NOT_FOUND_ERROR, PERMISSION_ERROR,
      INFEASIBLE_ERROR, DUPLICATION_ERROR, BROKEN_DATA_ERROR, APPLICATION_ERROR]"

text \<open>
  The spelling of each enumerator in the declaration of \<^verbatim>\<open>enum Code\<close>, the name a
  reader of the enumeration expects \<^verbatim>\<open>CodeName\<close> to return.
\<close>

definition enumerator_spelling :: "(Code \<times> string) list" where
  "enumerator_spelling =
     [(SUCCESS, ''SUCCESS''), (UNKNOWN_ERROR, ''UNKNOWN_ERROR''),
      (SYSTEM_ERROR, ''SYSTEM_ERROR''), (NOT_IMPLEMENTED_ERROR, ''NOT_IMPLEMENTED_ERROR''),
      (PRECONDITION_ERROR, ''PRECONDITION_ERROR''),
      (INVALID_ARGUMENT_ERROR, ''INVALID_ARGUMENT_ERROR''),
      (CANCELED_ERROR, ''CANCELED_ERROR''), (NOT_FOUND_ERROR, ''NOT_FOUND_ERROR''),
      (PERMISSION_ERROR, ''PERMISSION_ERROR''), (INFEASIBLE_ERROR, ''INFEASIBLE_ERROR''),
      (DUPLICATION_ERROR, ''DUPLICATION_ERROR''), (BROKEN_DATA_ERROR, ''BROKEN_DATA_ERROR''),
      (APPLICATION_ERROR, ''APPLICATION_ERROR'')]"

text \<open>The two private fields of \<^verbatim>\<open>class Status\<close>, \<^verbatim>\<open>code_\<close> and \<^verbatim>\<open>message_\<close>
  (an Isabelle name cannot end in an underscore).\<close>

record Status =
  code_field :: Code
  message_field :: string

text \<open>\<^verbatim>\<open>Status()\<close> and \<^verbatim>\<open>Status(Code code, std::string_view message = "")\<close>.\<close>

definition Status_default :: Status where
  "Status_default = \<lparr>code_field = SUCCESS, message_field = ''''\<rparr>"

definition Status_of :: "Code \<Rightarrow> string \<Rightarrow> Status" where
  "Status_of code message = \<lparr>code_field = code, message_field = message\<rparr>"

text \<open>
  \<^verbatim>\<open>Status& operator |=(const Status& rhs)\<close>. The first argument is the truth value of
  the address test \<^verbatim>\<open>this != &rhs\<close>; when it is false both operands are one object, so
  a caller passes \<open>False\<close> only together with \<open>this = rhs\<close>. The result is the receiver
  after the call.
\<close>

definition or_assign :: "bool \<Rightarrow> Status \<Rightarrow> Status \<Rightarrow> Status" where
  "or_assign distinct_objects this rhs =
     (if distinct_objects \<and> code_field this = SUCCESS \<and> code_field rhs \<noteq> SUCCESS
      then this\<lparr>code_field := code_field rhs, message_field := message_field rhs\<rparr>
      else this)"

text \<open>\<^verbatim>\<open>GetCode\<close>, \<^verbatim>\<open>GetMessage\<close>, \<^verbatim>\<open>IsOK\<close>.\<close>

definition GetCode :: "Status \<Rightarrow> Code" where
  "GetCode s = code_field s"

definition GetMessage :: "Status \<Rightarrow> string" where
  "GetMessage s = message_field s"

definition IsOK :: "Status \<Rightarrow> bool" where
  "IsOK s = (code_field s = SUCCESS)"

text \<open>
  \<^verbatim>\<open>operator ==\<close>, \<^verbatim>\<open>operator !=\<close> and \<^verbatim>\<open>operator <\<close> on two Status objects. The codes
  are compared as \<open>int32_t\<close> (signed); \<^verbatim>\<open>std::string\<close>'s \<^verbatim>\<open>operator <\<close> is the
  lexicographic order on unsigned bytes, which is the order of \<open>char list\<close> here.
\<close>

definition status_eq :: "Status \<Rightarrow> Status \<Rightarrow> bool" where
  "status_eq this rhs = (code_field this = code_field rhs)"

definition status_ne :: "Status \<Rightarrow> Status \<Rightarrow> bool" where
  "status_ne this rhs = (code_field this \<noteq> code_field rhs)"

definition status_less :: "Status \<Rightarrow> Status \<Rightarrow> bool" where
  "status_less this rhs =
     (if code_field this \<noteq> code_field rhs then code_field this <s code_field rhs
      else message_field this < message_field rhs)"

text \<open>\<^verbatim>\<open>static const char* CodeName(Code code)\<close>: the switch, case by case, and the
  fall-through return.\<close>

definition CodeName :: "Code \<Rightarrow> string" where
  "CodeName code =
     (if code = SUCCESS then ''SUCCESS''
      else if code = UNKNOWN_ERROR then ''UNKNOWN_ERROR''
      else if code = SYSTEM_ERROR then ''SYSTEM_ERROR''
      else if code = NOT_IMPLEMENTED_ERROR then ''NOT_IMPLEMENTED_ERROR''
      else if code = PRECONDITION_ERROR then ''PRECONDITION_ERROR''
      else if code = INVALID_ARGUMENT_ERROR then ''INVALID_ARGUMENT_ERROR''
      else if code = CANCELED_ERROR then ''CANCELED_ERROR ''
      else if code = NOT_FOUND_ERROR then ''NOT_FOUND_ERROR''
      else if code = PERMISSION_ERROR then ''PERMISSION_ERROR''
      else if code = INFEASIBLE_ERROR then ''INFEASIBLE_ERROR''
      else if code = DUPLICATION_ERROR then ''DUPLICATION_ERROR''
      else if code = BROKEN_DATA_ERROR then ''BROKEN_DATA_ERROR''
      else if code = APPLICATION_ERROR then ''APPLICATION_ERROR''
      else ''unnamed error'')"

text \<open>\<^verbatim>\<open>operator std::string()\<close> and \<^verbatim>\<open>ToString(const Status&)\<close>.\<close>

definition Status_string :: "Status \<Rightarrow> string" where
  "Status_string s =
     (let expr = CodeName (code_field s)
      in if message_field s \<noteq> [] then expr @ '': '' @ message_field s else expr)"

definition ToString :: "Status \<Rightarrow> string" where
  "ToString status = Status_string status"

text \<open>
  \<^verbatim>\<open>class StatusException\<close>: the \<^verbatim>\<open>std::runtime_error\<close> base holds the string given to
  its constructor (\<open>what\<close>), the class adds the conveyed status.
\<close>

record StatusException =
  what :: string
  status_field :: Status

definition StatusException_of :: "Status \<Rightarrow> StatusException" where
  "StatusException_of status = \<lparr>what = ToString status, status_field = status\<rparr>"

definition GetStatus :: "StatusException \<Rightarrow> Status" where
  "GetStatus e = status_field e"

text \<open>
  Modelled from the spec: the body of \<^verbatim>\<open>Status::OrDie\<close>, which the header only declares
  (``Throws an exception if the status is not success. Returns the reference to this
  object''; the specification: if the outcome is success, return normally, otherwise raise
  a fatal failure carrying the full outcome). \<open>Inl\<close> is the thrown exception, \<open>Inr\<close>
  the returned reference.
\<close>

definition OrDie :: "Status \<Rightarrow> StatusException + Status" where
  "OrDie this = (if code_field this \<noteq> SUCCESS then Inl (StatusException_of this) else Inr this)"

section \<open>Memory allocation wrappers\<close>

text \<open>
  \<open>void*\<close> and \<open>size_t\<close> are 64-bit values; \<open>nullptr\<close> is the pointer 0.
  \<^verbatim>\<open>std::malloc\<close>, \<^verbatim>\<open>std::calloc\<close> and \<^verbatim>\<open>std::realloc\<close> belong to the platform: each
  wrapper takes the platform function as its first argument, a function from the
  allocator's state \<open>'h\<close> and the call's arguments to the returned pointer and the new
  state. \<^verbatim>\<open>throw std::bad_alloc()\<close> is the result \<open>Inl bad_alloc\<close>.
\<close>

type_synonym ptr = "64 word"
type_synonym size_t = "64 word"

definition nullptr :: ptr where
  "nullptr = 0"

datatype alloc_failure = bad_alloc

definition xmalloc ::
  "('h \<Rightarrow> size_t \<Rightarrow> ptr \<times> 'h) \<Rightarrow> 'h \<Rightarrow> size_t \<Rightarrow> (alloc_failure + ptr) \<times> 'h" where
  "xmalloc std_malloc h sz =
     (case std_malloc h sz of
        (ptr, h') \<Rightarrow> if ptr = nullptr then (Inl bad_alloc, h') else (Inr ptr, h'))"

definition xcalloc ::
  "('h \<Rightarrow> size_t \<Rightarrow> size_t \<Rightarrow> ptr \<times> 'h) \<Rightarrow> 'h \<Rightarrow> size_t \<Rightarrow> size_t
     \<Rightarrow> (alloc_failure + ptr) \<times> 'h" where
  "xcalloc std_calloc h nmemb sz =
     (case std_calloc h nmemb sz of
        (ptr, h') \<Rightarrow> if ptr = nullptr then (Inl bad_alloc, h') else (Inr ptr, h'))"

definition xrealloc ::
  "('h \<Rightarrow> ptr \<Rightarrow> size_t \<Rightarrow> ptr \<times> 'h) \<Rightarrow> 'h \<Rightarrow> ptr \<Rightarrow> size_t
     \<Rightarrow> (alloc_failure + ptr) \<times> 'h" where
  "xrealloc std_realloc h ptr sz =
     (case std_realloc h ptr sz of
        (ptr', h') \<Rightarrow> if ptr' = nullptr then (Inl bad_alloc, h') else (Inr ptr', h'))"

text \<open>
  The loop of \<^verbatim>\<open>xreallocappend\<close>,
  \<^verbatim>\<open>while (aligned_size < size) { aligned_size += aligned_size >> 1; }\<close>,
  in \<open>size_t\<close> arithmetic: the addition wraps around at \<open>2^64\<close>. The loop has no bound
  on its iterations, so not returning is the value \<open>None\<close>.
\<close>

partial_function (option) aligned_size_loop :: "size_t \<Rightarrow> size_t \<Rightarrow> size_t option" where
  "aligned_size_loop aligned_size sz =
     (if aligned_size < sz
      then aligned_size_loop (aligned_size + drop_bit 1 aligned_size) sz
      else Some aligned_size)"

text \<open>\<^verbatim>\<open>xreallocappend\<close>: the candidate starts at 8; the capacity the loop returns
  is the size given to \<^verbatim>\<open>xrealloc\<close>.\<close>

definition xreallocappend ::
  "('h \<Rightarrow> ptr \<Rightarrow> size_t \<Rightarrow> ptr \<times> 'h) \<Rightarrow> 'h \<Rightarrow> ptr \<Rightarrow> size_t
     \<Rightarrow> ((alloc_failure + ptr) \<times> 'h) option" where
  "xreallocappend std_realloc h ptr sz =
     (case aligned_size_loop 8 sz of
        None \<Rightarrow> None
      | Some aligned_size \<Rightarrow> Some (xrealloc std_realloc h ptr aligned_size))"

text \<open>
  The growth sequence 8, 12, 18, 27, ... in unbounded integers, as the specification
  words it: start at 8, \<open>next = current + current/2\<close> with floor division.
\<close>

definition next_capacity :: "nat \<Rightarrow> nat" where
  "next_capacity c = c + c div 2"

definition capacity_seq :: "nat \<Rightarrow> nat" where
  "capacity_seq n = (next_capacity ^^ n) 8"

text \<open>One step of the loop body on \<open>size_t\<close>, and the candidate after \<open>n\<close> steps.\<close>

definition grow :: "size_t \<Rightarrow> size_t" where
  "grow a = a + drop_bit 1 a"

definition candidate :: "nat \<Rightarrow> size_t" where
  "candidate n = (grow ^^ n) 8"

section \<open>Container lookup helpers\<close>

text \<open>
  A \<^verbatim>\<open>std::map<K, V>\<close> is a finite map from keys to values; \<^verbatim>\<open>map.find(key)\<close> is the
  lookup. \<^verbatim>\<open>CheckSet\<close>, \<^verbatim>\<open>CheckMap\<close>:
\<close>

definition CheckSet :: "'a set \<Rightarrow> 'a \<Rightarrow> bool" where
  "CheckSet set_arg elem = (elem \<in> set_arg)"

definition CheckMap :: "('k \<rightharpoonup> 'v) \<Rightarrow> 'k \<Rightarrow> bool" where
  "CheckMap map_arg key = (map_arg key \<noteq> None)"

text \<open>
  \<^verbatim>\<open>SearchMap\<close> is declared with the return type
  \<^verbatim>\<open>typename MAP::value_type::first_type\<close>. For \<^verbatim>\<open>std::map<K, V>\<close> the \<^verbatim>\<open>value_type\<close> is
  \<^verbatim>\<open>std::pair<const K, V>\<close>, so the function returns the \<^emph>\<open>key\<close> type \<open>K\<close>: the
  conditional expression has the type \<open>V\<close> of \<^verbatim>\<open>default_value\<close> and \<^verbatim>\<open>it->second\<close>, and
  the return statement converts it implicitly to \<open>K\<close>. The conversion depends on the
  instantiation and is the first argument here.
\<close>

definition SearchMap :: "('v \<Rightarrow> 'k) \<Rightarrow> ('k \<rightharpoonup> 'v) \<Rightarrow> 'k \<Rightarrow> 'v \<Rightarrow> 'k" where
  "SearchMap to_first_type map_arg key default_value =
     to_first_type (case map_arg key of None \<Rightarrow> default_value | Some second \<Rightarrow> second)"

text \<open>
  The instantiation \<^verbatim>\<open>MAP = std::map<uint8_t, uint32_t>\<close>: the implicit conversion from
  \<^verbatim>\<open>uint32_t\<close> to \<^verbatim>\<open>uint8_t\<close> keeps the low eight bits. And an instantiation with
  \<open>K = V\<close> (such as \<^verbatim>\<open>std::map<std::string, std::string>\<close>), where the conversion is a
  copy.
\<close>

definition SearchMap_u8_u32 :: "(8 word \<rightharpoonup> 32 word) \<Rightarrow> 8 word \<Rightarrow> 32 word \<Rightarrow> 8 word" where
  "SearchMap_u8_u32 = SearchMap ucast"

definition SearchMap_same :: "('a \<rightharpoonup> 'a) \<Rightarrow> 'a \<Rightarrow> 'a \<Rightarrow> 'a" where
  "SearchMap_same = SearchMap (\<lambda>v. v)"

section \<open>CRC-32\<close>

text \<open>
  Modelled from the spec: the body of \<^verbatim>\<open>HashCRC32Continuous\<close>, which the header only
  declares (``Gets the hash value by CRC-32, in a continuous way''; \<open>seed\<close> ``should be
  0xFFFFFFFF for the first call of the cycle''). The specification describes a 32-bit
  accumulator that starts at the seed, is updated by each byte of the chunk, and undergoes a
  final inversion step when \<open>finish\<close> is true. The byte update is that of the standard
  reflected CRC-32 (polynomial \<open>0xEDB88320\<close>), bit by bit.
\<close>

definition crc32_shift :: "32 word \<Rightarrow> 32 word" where
  "crc32_shift crc =
     (if bit crc 0 then drop_bit 1 crc XOR 0xEDB88320 else drop_bit 1 crc)"

definition crc32_update :: "32 word \<Rightarrow> 8 word \<Rightarrow> 32 word" where
  "crc32_update crc b = (crc32_shift ^^ 8) (crc XOR ucast b)"

definition HashCRC32Continuous :: "8 word list \<Rightarrow> bool \<Rightarrow> 32 word \<Rightarrow> 32 word" where
  "HashCRC32Continuous buf finish seed =
     (let crc = foldl crc32_update seed buf
      in if finish then crc XOR 0xFFFFFFFF else crc)"

text \<open>\<^verbatim>\<open>HashCRC32(const void* buf, size_t size)\<close>, with the default seed of the
  declaration written out.\<close>

definition HashCRC32 :: "8 word list \<Rightarrow> 32 word" where
  "HashCRC32 buf = HashCRC32Continuous buf True 0xFFFFFFFF"

text \<open>
  The calling cycle of the header comment and the specification, for a sequence of
  chunks: the accumulator returned by one call is the seed of the next, and only the last
  call passes \<open>finish = true\<close>. With no chunk no call is made and the seed is all there is.
\<close>

fun HashCRC32_cycle :: "32 word \<Rightarrow> 8 word list list \<Rightarrow> 32 word" where
  "HashCRC32_cycle seed [] = seed"
| "HashCRC32_cycle seed [chunk] = HashCRC32Continuous chunk True seed"
| "HashCRC32_cycle seed (chunk # chunks) =
     HashCRC32_cycle (HashCRC32Continuous chunk False seed) chunks"

section \<open>Properties of Status\<close>

lemmas Code_defs =
  SUCCESS_def UNKNOWN_ERROR_def SYSTEM_ERROR_def NOT_IMPLEMENTED_ERROR_def
  PRECONDITION_ERROR_def INVALID_ARGUMENT_ERROR_def CANCELED_ERROR_def
  NOT_FOUND_ERROR_def PERMISSION_ERROR_def INFEASIBLE_ERROR_def
  DUPLICATION_ERROR_def BROKEN_DATA_ERROR_def APPLICATION_ERROR_def



lemma or_assign_failure_kept:
  "code_field this \<noteq> SUCCESS \<Longrightarrow> or_assign d this rhs = this"
  by (simp add: or_assign_def)

text \<open>
  Claim C3. A receiver whose code is not SUCCESS is left completely unchanged by
  \<^verbatim>\<open>|=\<close>, whatever the right-hand side is and whether or not it is the same object: the
  receiver after the call is the receiver before it, so code and message are both the same.
\<close>

theorem or_assign_failure_unchanged:
  assumes "code_field this \<noteq> SUCCESS"
  shows "or_assign distinct_objects this rhs = this
    \<and> code_field (or_assign distinct_objects this rhs) = code_field this
    \<and> message_field (or_assign distinct_objects this rhs) = message_field this"
  using assms by (simp add: or_assign_def)

theorem or_assign_failure_unchanged_witness:
  "code_field (Status_of NOT_FOUND_ERROR ''no key'') \<noteq> SUCCESS
   \<and> or_assign True (Status_of NOT_FOUND_ERROR ''no key'') (Status_of SYSTEM_ERROR ''io'')
       = Status_of NOT_FOUND_ERROR ''no key''"
  using or_assign_failure_unchanged
    [of "Status_of NOT_FOUND_ERROR ''no key''" True "Status_of SYSTEM_ERROR ''io''"]
  by (simp add: Status_of_def Code_defs)

text \<open>
  Claim C2, as stated, fails when the right-hand side is a success too: the guard \<^verbatim>\<open>rhs.code_ != SUCCESS\<close> then leaves the receiver as it is, and its
  message stays its own.
\<close>

theorem or_assign_success_success_counterexample:
  "code_field (Status_of SUCCESS '''') = SUCCESS
   \<and> message_field (or_assign True (Status_of SUCCESS '''') (Status_of SUCCESS ''done''))
       \<noteq> message_field (Status_of SUCCESS ''done'')"
  by (simp add: or_assign_def Status_of_def)

text \<open>
  Claim C2 (amended). For a receiver whose code is SUCCESS: when the code of \<open>rhs\<close> is
  not SUCCESS, \<^verbatim>\<open>|=\<close> makes the receiver equal to \<open>rhs\<close> in code and message; when the code
  of \<open>rhs\<close> is SUCCESS, the receiver is unchanged, so its code is that of \<open>rhs\<close> and its
  message is still its own. (If both operands are one object, they are equal.)
\<close>

theorem or_assign_success_adopts_failure:
  assumes "code_field this = SUCCESS" and "distinct_objects \<or> this = rhs"
  shows "(code_field rhs \<noteq> SUCCESS \<longrightarrow> or_assign distinct_objects this rhs = rhs)
    \<and> (code_field rhs = SUCCESS \<longrightarrow> or_assign distinct_objects this rhs = this)
    \<and> code_field (or_assign distinct_objects this rhs) = code_field rhs"
  using assms by (auto simp add: or_assign_def)

theorem or_assign_success_adopts_failure_witness:
  "code_field Status_default = SUCCESS
   \<and> or_assign True Status_default (Status_of NOT_FOUND_ERROR ''no key'')
       = Status_of NOT_FOUND_ERROR ''no key''
   \<and> or_assign True Status_default (Status_of SUCCESS ''done'') = Status_default"
  using or_assign_success_adopts_failure
    [of Status_default True "Status_of NOT_FOUND_ERROR ''no key''"]
    or_assign_success_adopts_failure
    [of Status_default True "Status_of SUCCESS ''done''"]
  by (simp add: Status_default_def Status_of_def Code_defs)

text \<open>Twelve of the thirteen codes have exactly the spelling of their enumerator.\<close>

lemma CodeName_other_codes:
  "\<forall>c \<in> set defined_codes. c \<noteq> CANCELED_ERROR \<longrightarrow>
     map_of enumerator_spelling c = Some (CodeName c)"
  by (simp add: defined_codes_def enumerator_spelling_def CodeName_def Code_defs)

text \<open>
  Claim C4. \<^verbatim>\<open>CodeName(CANCELED_ERROR)\<close> is the enumerator's spelling followed by a
  space: the string literal of that case of the switch ends in a blank, so the name is
  not exactly the spelling of the enumerator.
\<close>

theorem CodeName_CANCELED_ERROR_trailing_space:
  "CodeName CANCELED_ERROR = ''CANCELED_ERROR ''
   \<and> map_of enumerator_spelling CANCELED_ERROR = Some ''CANCELED_ERROR''
   \<and> CodeName CANCELED_ERROR \<noteq> ''CANCELED_ERROR''"
  by (simp add: enumerator_spelling_def CodeName_def Code_defs)

text \<open>
  Claim C5. \<^verbatim>\<open>==\<close> and \<^verbatim>\<open>!=\<close> compare the codes only, whatever the messages are;
  \<^verbatim>\<open><\<close> holds exactly when the receiver's code is the smaller one (as a signed 32-bit
  ordinal), or the codes are equal and the receiver's message is lexicographically smaller.
\<close>

theorem status_comparisons:
  "(status_eq a b \<longleftrightarrow> code_field a = code_field b)
   \<and> (status_ne a b \<longleftrightarrow> code_field a \<noteq> code_field b)
   \<and> status_eq (a\<lparr>message_field := m\<rparr>) (b\<lparr>message_field := m'\<rparr>) = status_eq a b
   \<and> status_ne (a\<lparr>message_field := m\<rparr>) (b\<lparr>message_field := m'\<rparr>) = status_ne a b
   \<and> (status_less a b \<longleftrightarrow>
        sint (code_field a) < sint (code_field b)
        \<or> (code_field a = code_field b \<and> message_field a < message_field b))"
  by (auto simp add: status_eq_def status_ne_def status_less_def word_sless_alt)

theorem status_comparisons_witness:
  "status_eq (Status_of NOT_FOUND_ERROR ''a'') (Status_of NOT_FOUND_ERROR ''b'')
   \<and> status_less (Status_of NOT_FOUND_ERROR ''a'') (Status_of NOT_FOUND_ERROR ''b'')
   \<and> status_less (Status_of SYSTEM_ERROR ''z'') (Status_of NOT_FOUND_ERROR ''b'')
   \<and> \<not> status_less (Status_of NOT_FOUND_ERROR ''b'') (Status_of NOT_FOUND_ERROR ''a'')"
  using status_comparisons
    [of "Status_of NOT_FOUND_ERROR ''a''" "Status_of NOT_FOUND_ERROR ''b''"]
    status_comparisons
    [of "Status_of SYSTEM_ERROR ''z''" "Status_of NOT_FOUND_ERROR ''b''"]
    status_comparisons
    [of "Status_of NOT_FOUND_ERROR ''b''" "Status_of NOT_FOUND_ERROR ''a''"]
  by (simp add: Status_of_def Code_defs)

text \<open>
  Claim C9. \<^verbatim>\<open>OrDie\<close> on a success returns normally (the status itself); on any other
  status it throws a StatusException that carries the status and whose message is the
  code's display name, followed by a colon, a space and the detail when the detail is not
  empty. The display name is always a prefix of the message.
\<close>

theorem OrDie_escalates:
  "(code_field s = SUCCESS \<longrightarrow> OrDie s = Inr s)
   \<and> (code_field s \<noteq> SUCCESS \<longrightarrow>
        (\<exists>e. OrDie s = Inl e \<and> GetStatus e = s
           \<and> what e = (if message_field s = [] then CodeName (code_field s)
                        else CodeName (code_field s) @ '': '' @ message_field s)
           \<and> prefix (CodeName (code_field s)) (what e)))"
  by (simp add: OrDie_def StatusException_of_def GetStatus_def ToString_def
      Status_string_def)

theorem OrDie_escalates_witness:
  "OrDie Status_default = Inr Status_default
   \<and> (\<exists>e. OrDie (Status_of NOT_FOUND_ERROR ''no key'') = Inl e
         \<and> GetStatus e = Status_of NOT_FOUND_ERROR ''no key''
         \<and> what e = ''NOT_FOUND_ERROR: no key'')"
  using OrDie_escalates [of Status_default]
    OrDie_escalates [of "Status_of NOT_FOUND_ERROR ''no key''"]
  by (auto simp add: Status_default_def Status_of_def CodeName_def Code_defs)

section \<open>Properties of the allocation wrappers\<close>

text \<open>
  Claim C8. None of \<^verbatim>\<open>xmalloc\<close>, \<^verbatim>\<open>xcalloc\<close>, \<^verbatim>\<open>xrealloc\<close> returns a null pointer:
  when the platform allocator returns null the wrapper throws \<^verbatim>\<open>std::bad_alloc\<close>, and
  otherwise it returns the platform's pointer, which is not null.
\<close>

theorem allocation_wrappers_never_null:
  "(fst (std_malloc h sz) = nullptr \<longrightarrow> fst (xmalloc std_malloc h sz) = Inl bad_alloc)
   \<and> (fst (std_malloc h sz) \<noteq> nullptr \<longrightarrow>
        fst (xmalloc std_malloc h sz) = Inr (fst (std_malloc h sz)))
   \<and> fst (xmalloc std_malloc h sz) \<noteq> Inr nullptr
   \<and> (fst (std_calloc h nmemb csz) = nullptr \<longrightarrow>
        fst (xcalloc std_calloc h nmemb csz) = Inl bad_alloc)
   \<and> (fst (std_calloc h nmemb csz) \<noteq> nullptr \<longrightarrow>
        fst (xcalloc std_calloc h nmemb csz) = Inr (fst (std_calloc h nmemb csz)))
   \<and> fst (xcalloc std_calloc h nmemb csz) \<noteq> Inr nullptr
   \<and> (fst (std_realloc h p rsz) = nullptr \<longrightarrow>
        fst (xrealloc std_realloc h p rsz) = Inl bad_alloc)
   \<and> (fst (std_realloc h p rsz) \<noteq> nullptr \<longrightarrow>
        fst (xrealloc std_realloc h p rsz) = Inr (fst (std_realloc h p rsz)))
   \<and> fst (xrealloc std_realloc h p rsz) \<noteq> Inr nullptr"
  by (simp add: xmalloc_def xcalloc_def xrealloc_def split: prod.split)

theorem allocation_wrappers_never_null_witness:
  "fst (xmalloc (\<lambda>h sz. if 64 < sz then (nullptr, h) else (4096, h + sz)) (0 :: 64 word) 100)
     = Inl bad_alloc
   \<and> fst (xcalloc (\<lambda>h n sz. (4096 + h, h + n * sz)) (0 :: 64 word) 4 8) = Inr 4096
   \<and> fst (xrealloc (\<lambda>h p sz. if sz = 0 then (nullptr, h) else (p, h)) (0 :: 64 word) 4096 0)
       = Inl bad_alloc"
  using allocation_wrappers_never_null
    [where std_malloc = "\<lambda>h sz. if 64 < sz then (nullptr, h) else (4096, h + sz)"
       and h = "0 :: 64 word" and sz = 100
       and std_calloc = "\<lambda>h n sz. (4096 + h, h + n * sz)" and nmemb = 4 and csz = 8
       and std_realloc = "\<lambda>h p sz. if sz = 0 then (nullptr, h) else (p, h)"
       and p = 4096 and rsz = 0]
  by (simp add: nullptr_def)

section \<open>Properties of the lookup helpers\<close>

lemma SearchMap_same_correct:
  "(map_arg key = None \<longrightarrow> SearchMap_same map_arg key default_value = default_value)
   \<and> (map_arg key = Some v \<longrightarrow> SearchMap_same map_arg key default_value = v)"
  by (simp add: SearchMap_same_def SearchMap_def)

text \<open>
  Claim C7. For \<^verbatim>\<open>std::map<uint8_t, uint32_t>\<close> the value stored under key 1 is 300,
  and \<^verbatim>\<open>SearchMap\<close> returns 44: the result has the key type and the stored value is
  truncated to it. The same happens to the default value when the key is absent.
\<close>

theorem SearchMap_returns_key_type:
  "unat (SearchMap_u8_u32 (Map.empty(1 \<mapsto> 300)) 1 0) = 44
   \<and> unat (SearchMap_u8_u32 Map.empty 1 300) = 44
   \<and> unat (300 :: 32 word) = 300"
  by (simp add: SearchMap_u8_u32_def SearchMap_def)

section \<open>Properties of the CRC-32\<close>

lemma crc32_update_unfold:
  "crc32_update crc b =
     crc32_shift (crc32_shift (crc32_shift (crc32_shift
       (crc32_shift (crc32_shift (crc32_shift (crc32_shift (crc XOR ucast b))))))))"
  by (simp add: crc32_update_def numeral_eq_Suc)

lemma HashCRC32_check_value:
  "HashCRC32 [0x31, 0x32, 0x33, 0x34, 0x35, 0x36, 0x37, 0x38, 0x39] = 0xCBF43926"
  by (simp add: HashCRC32_def HashCRC32Continuous_def crc32_update_unfold crc32_shift_def)

lemma HashCRC32Continuous_append:
  "HashCRC32Continuous (xs @ ys) finish seed =
     HashCRC32Continuous ys finish (HashCRC32Continuous xs False seed)"
  by (simp add: HashCRC32Continuous_def)

lemma HashCRC32_cycle_concat:
  "chunks \<noteq> [] \<Longrightarrow>
     HashCRC32_cycle seed chunks = HashCRC32Continuous (concat chunks) True seed"
proof (induction seed chunks rule: HashCRC32_cycle.induct)
  case (1 seed)
  then show ?case by simp
next
  case (2 seed chunk)
  then show ?case by simp
next
  case (3 seed chunk c cs)
  then show ?case by (simp add: HashCRC32Continuous_append)
qed

text \<open>
  Claim C1. For every buffer and every split of it into a sequence of non-empty chunks,
  the calling cycle (seed \<open>0xFFFFFFFF\<close> first, each returned accumulator the next seed,
  \<open>finish\<close> on the last call only) gives the value of the one-shot \<^verbatim>\<open>HashCRC32\<close> on
  the whole buffer, which is \<^verbatim>\<open>HashCRC32Continuous\<close> with \<open>finish\<close> and the default
  seed.
\<close>

theorem HashCRC32_cycle_equals_one_shot:
  assumes "chunks \<noteq> []" and "\<forall>chunk \<in> set chunks. chunk \<noteq> []"
    and "concat chunks = buf"
  shows "HashCRC32_cycle 0xFFFFFFFF chunks = HashCRC32 buf
    \<and> HashCRC32 buf = HashCRC32Continuous buf True 0xFFFFFFFF"
  using assms HashCRC32_cycle_concat [of chunks "0xFFFFFFFF"]
  by (simp add: HashCRC32_def)

theorem HashCRC32_cycle_equals_one_shot_witness:
  "HashCRC32_cycle 0xFFFFFFFF [[0x31, 0x32, 0x33], [0x34, 0x35, 0x36], [0x37, 0x38, 0x39]]
     = HashCRC32 [0x31, 0x32, 0x33, 0x34, 0x35, 0x36, 0x37, 0x38, 0x39]
   \<and> HashCRC32 [0x31, 0x32, 0x33, 0x34, 0x35, 0x36, 0x37, 0x38, 0x39] = 0xCBF43926"
  using HashCRC32_cycle_equals_one_shot
    [of "[[0x31, 0x32, 0x33], [0x34, 0x35, 0x36], [0x37, 0x38, 0x39]]"
        "[0x31, 0x32, 0x33, 0x34, 0x35, 0x36, 0x37, 0x38, 0x39]"]
    HashCRC32_check_value
  by simp

section \<open>Properties of the append-growth capacity\<close>

lemma capacity_seq_0: "capacity_seq 0 = 8"
  by (simp add: capacity_seq_def)

lemma capacity_seq_Suc: "capacity_seq (Suc n) = next_capacity (capacity_seq n)"
  by (simp add: capacity_seq_def)

lemma capacity_seq_1: "capacity_seq (Suc 0) = 12"
  by (simp add: capacity_seq_Suc capacity_seq_0 next_capacity_def)

lemma capacity_seq_numeral:
  "capacity_seq (numeral k) = next_capacity (capacity_seq (pred_numeral k))"
  by (simp add: numeral_eq_Suc capacity_seq_Suc)

lemma capacity_seq_ge_8: "8 \<le> capacity_seq n"
  by (induction n) (simp_all add: capacity_seq_0 capacity_seq_Suc next_capacity_def)

lemma capacity_seq_less_Suc: "capacity_seq n < capacity_seq (Suc n)"
  using capacity_seq_ge_8 [of n] by (simp add: capacity_seq_Suc next_capacity_def)

lemma capacity_seq_strict_mono: "n < m \<Longrightarrow> capacity_seq n < capacity_seq m"
  by (rule lift_Suc_mono_less) (rule capacity_seq_less_Suc)

lemma capacity_seq_mono: "n \<le> m \<Longrightarrow> capacity_seq n \<le> capacity_seq m"
  using capacity_seq_strict_mono [of n m] by (cases "n = m") simp_all

lemma capacity_seq_largest:
  "capacity_seq 104 = 16186175163037482499
   \<and> capacity_seq 104 < 2 ^ 64 \<and> 2 ^ 64 \<le> capacity_seq 105"
  by (simp add: capacity_seq_numeral capacity_seq_1 next_capacity_def)

lemma candidate_0: "candidate 0 = 8"
  by (simp add: candidate_def)

lemma candidate_Suc: "candidate (Suc n) = grow (candidate n)"
  by (simp add: candidate_def)

lemma unat_grow_mod: "unat (grow a) = (unat a + unat a div 2) mod 2 ^ 64"
  by (simp add: grow_def unat_word_ariths unat_drop_bit_eq drop_bit_eq_div mod_simps)

lemma unat_grow:
  "unat a + unat a div 2 < 2 ^ 64 \<Longrightarrow> unat (grow a) = unat a + unat a div 2"
  by (simp add: unat_grow_mod)

lemma unat_candidate:
  "capacity_seq n < 2 ^ 64 \<Longrightarrow> unat (candidate n) = capacity_seq n"
proof (induction n)
  case 0
  show ?case by (simp add: candidate_0 capacity_seq_0)
next
  case (Suc n)
  have "capacity_seq n < 2 ^ 64"
    using Suc.prems capacity_seq_less_Suc [of n] by simp
  then have eq: "unat (candidate n) = capacity_seq n"
    by (rule Suc.IH)
  have "unat (candidate n) + unat (candidate n) div 2 < 2 ^ 64"
    using Suc.prems by (simp add: eq capacity_seq_Suc next_capacity_def)
  then show ?case
    by (simp add: candidate_Suc unat_grow eq capacity_seq_Suc next_capacity_def)
qed

lemma aligned_size_loop_unroll:
  "(\<forall>j<n. (grow ^^ j) a < sz) \<Longrightarrow> \<not> (grow ^^ n) a < sz \<Longrightarrow>
     aligned_size_loop a sz = Some ((grow ^^ n) a)"
proof (induction n arbitrary: a)
  case 0
  then show ?case by (simp add: aligned_size_loop.simps)
next
  case (Suc n)
  have "a < sz" using Suc.prems(1) by (auto dest: spec [of _ 0])
  have steps: "\<forall>j<n. (grow ^^ j) (grow a) < sz"
  proof (intro allI impI)
    fix j assume "j < n"
    then have "(grow ^^ Suc j) a < sz" using Suc.prems(1) by auto
    then show "(grow ^^ j) (grow a) < sz" by (simp add: funpow_swap1)
  qed
  have last: "\<not> (grow ^^ n) (grow a) < sz"
    using Suc.prems(2) by (simp add: funpow_swap1)
  have "aligned_size_loop a sz = aligned_size_loop (grow a) sz"
    using \<open>a < sz\<close> by (subst aligned_size_loop.simps) (simp add: grow_def)
  also have "\<dots> = Some ((grow ^^ n) (grow a))"
    using steps last by (rule Suc.IH)
  finally show ?case by (simp add: funpow_swap1)
qed

lemma aligned_size_loop_capacity:
  assumes "unat sz \<le> capacity_seq k" and "capacity_seq k < 2 ^ 64"
  shows "\<exists>n\<le>k. aligned_size_loop 8 sz = Some (candidate n)
    \<and> unat sz \<le> capacity_seq n
    \<and> (\<forall>j<n. capacity_seq j < unat sz)
    \<and> (\<forall>j\<le>n. unat (candidate j) = capacity_seq j)"
proof -
  define n where "n = (LEAST n. unat sz \<le> capacity_seq n)"
  have reach: "unat sz \<le> capacity_seq n"
    unfolding n_def using assms(1) by (rule LeastI)
  have "n \<le> k"
    unfolding n_def using assms(1) by (rule Least_le)
  have before: "capacity_seq j < unat sz" if "j < n" for j
    using that not_less_Least [of j "\<lambda>n. unat sz \<le> capacity_seq n"]
    by (simp add: n_def)
  have repr: "unat (candidate j) = capacity_seq j" if "j \<le> n" for j
  proof (rule unat_candidate)
    have "capacity_seq j \<le> capacity_seq k"
      using that \<open>n \<le> k\<close> by (intro capacity_seq_mono) simp
    then show "capacity_seq j < 2 ^ 64" using assms(2) by simp
  qed
  have "\<forall>j<n. (grow ^^ j) 8 < sz"
    using before repr by (simp add: word_less_nat_alt candidate_def [symmetric])
  moreover have "\<not> (grow ^^ n) 8 < sz"
    using reach repr [of n] by (simp add: word_less_nat_alt candidate_def [symmetric])
  ultimately have "aligned_size_loop 8 sz = Some ((grow ^^ n) 8)"
    by (rule aligned_size_loop_unroll)
  then have "aligned_size_loop 8 sz = Some (candidate n)"
    by (simp add: candidate_def)
  with \<open>n \<le> k\<close> reach before repr show ?thesis by blast
qed










text \<open>
  Claim C10. For every requested size that is at most an element of the sequence
  8, 12, 18, 27, ... representable in \<open>size_t\<close> (so at most the largest such element,
  \<open>capacity_seq 104\<close>), the loop of \<^verbatim>\<open>xreallocappend\<close> returns after some number \<open>n\<close>
  of steps, no step wraps around (the exact sum of each step is below \<open>2^64\<close>), and the
  capacity, which \<^verbatim>\<open>xreallocappend\<close> hands to \<^verbatim>\<open>xrealloc\<close>, is the least element of the
  sequence that is at least \<open>max(s, 8)\<close>.
\<close>

theorem xreallocappend_capacity_least:
  assumes "unat sz \<le> capacity_seq k" and "capacity_seq k < 2 ^ 64"
  shows "\<exists>n. xreallocappend std_realloc h p sz
        = Some (xrealloc std_realloc h p (candidate n))
    \<and> aligned_size_loop 8 sz = Some (candidate n)
    \<and> (\<forall>j<n. unat (candidate j) + unat (candidate j) div 2 < 2 ^ 64)
    \<and> unat (candidate n) = capacity_seq n
    \<and> max (unat sz) 8 \<le> capacity_seq n
    \<and> (\<forall>m. max (unat sz) 8 \<le> capacity_seq m \<longrightarrow> capacity_seq n \<le> capacity_seq m)"
proof -
  obtain n where "n \<le> k" and loop: "aligned_size_loop 8 sz = Some (candidate n)"
    and reach: "unat sz \<le> capacity_seq n"
    and before: "\<forall>j<n. capacity_seq j < unat sz"
    and repr: "\<forall>j\<le>n. unat (candidate j) = capacity_seq j"
    using aligned_size_loop_capacity [OF assms] by blast
  have nowrap: "unat (candidate j) + unat (candidate j) div 2 < 2 ^ 64" if "j < n" for j
  proof -
    have "unat (candidate j) + unat (candidate j) div 2 = capacity_seq (Suc j)"
      using that repr by (simp add: capacity_seq_Suc next_capacity_def)
    also have "\<dots> \<le> capacity_seq k"
      using that \<open>n \<le> k\<close> by (intro capacity_seq_mono) simp
    finally show ?thesis using assms(2) by simp
  qed
  have least: "capacity_seq n \<le> capacity_seq m" if "max (unat sz) 8 \<le> capacity_seq m" for m
  proof (rule capacity_seq_mono, rule ccontr)
    assume "\<not> n \<le> m"
    then have "capacity_seq m < unat sz" using before by simp
    with that show False by simp
  qed
  have call: "xreallocappend std_realloc h p sz
      = Some (xrealloc std_realloc h p (candidate n))"
    by (simp add: xreallocappend_def loop)
  have "max (unat sz) 8 \<le> capacity_seq n"
    using reach capacity_seq_ge_8 [of n] by simp
  with call loop nowrap repr least show ?thesis by blast
qed

theorem xreallocappend_capacity_least_witness:
  "unat (16186175163037482499 :: size_t) \<le> capacity_seq 104 \<and> capacity_seq 104 < 2 ^ 64
   \<and> (\<exists>n. xreallocappend (\<lambda>h p sz. (p, h)) (0 :: nat) 4096 16186175163037482499
           = Some (xrealloc (\<lambda>h p sz. (p, h)) 0 4096 (candidate n))
     \<and> aligned_size_loop 8 16186175163037482499 = Some (candidate n)
     \<and> (\<forall>j<n. unat (candidate j) + unat (candidate j) div 2 < 2 ^ 64)
     \<and> unat (candidate n) = capacity_seq n
     \<and> max (unat (16186175163037482499 :: size_t)) 8 \<le> capacity_seq n
     \<and> (\<forall>m. max (unat (16186175163037482499 :: size_t)) 8 \<le> capacity_seq m
            \<longrightarrow> capacity_seq n \<le> capacity_seq m))"
proof -
  have a: "unat (16186175163037482499 :: size_t) \<le> capacity_seq 104"
    and b: "capacity_seq 104 < 2 ^ 64"
    using capacity_seq_largest by simp_all
  show ?thesis
    using a b
      xreallocappend_capacity_least [OF a b, of "\<lambda>h p sz. (p, h)" "0 :: nat" 4096]
    by blast
qed

lemma aligned_size_loop_examples:
  "aligned_size_loop 8 0 = Some 8" "aligned_size_loop 8 8 = Some 8"
  "aligned_size_loop 8 9 = Some 12" "aligned_size_loop 8 100 = Some 135"
  by (simp_all add: aligned_size_loop.simps)

text \<open>
  One byte above the largest representable element of the sequence the addition wraps
  around; here the loop still returns, with a wrapped value that is not the next element
  of the sequence (which is \<open>24279262744556223748\<close>, above \<open>2^64\<close>).
\<close>

lemma aligned_size_loop_wraps:
  "aligned_size_loop 8 16186175163037482500 = Some 18007068465314465499"
  by (simp add: aligned_size_loop.simps)

end
